theory Spec2Isabelle
  imports Main "HOL-Library.Word"
begin

section \<open>Errors and outcomes\<close>

text \<open>
  Go error values, as the package \<open>github.com/pkg/errors\<close> builds them in
  \<open>executor/oci/spec_linux.go\<close>: \<open>errors.New\<close> and \<open>errors.Errorf\<close> make a
  fresh error from its (formatted) message, \<open>errors.WithStack\<close> and \<open>errors.Wrapf\<close>
  wrap an error they are given. \<open>ErrForeign\<close> is an error that an external
  collaborator (the operating system, a library) returned.
\<close>

datatype error =
    ErrNew string
  | ErrWithStack error
  | ErrWrapf error string
  | ErrForeign string

text \<open>
  What a call of a spec mutator can do: return (with or without an error; the spec
  it was given has been mutated in place either way), or panic on a nil pointer.
\<close>

datatype 'a outcome = Returned "error option" 'a | Panicked

section \<open>The runtime spec\<close>

text \<open>
  The fields of the OCI runtime spec (\<open>specs.Spec\<close>) that the file reads or writes,
  and some it leaves alone. \<open>Process\<close> and \<open>Linux\<close> are pointers in Go, so each
  can be nil.
\<close>

record specs_Mount =
  Destination :: string
  Type :: string
  Source :: string
  Options :: "string list"

record specs_POSIXRlimit =
  Type_rl :: string
  Hard :: "64 word"
  Soft :: "64 word"

datatype LinuxNamespaceType =
  PIDNamespace | NetworkNamespace | MountNamespace | IPCNamespace
  | UTSNamespace | UserNamespace | CgroupNamespace

datatype LinuxSeccomp = LinuxSeccomp string

record specs_Process =
  Args :: "string list"
  Env :: "string list"
  Rlimits :: "specs_POSIXRlimit list"
  ApparmorProfile :: string
  SelinuxLabel :: string

record specs_Linux =
  Namespaces :: "(LinuxNamespaceType \<times> string) list"
  MaskedPaths :: "string list"
  ReadonlyPaths :: "string list"
  Seccomp :: "LinuxSeccomp option"
  MountLabel :: string

record specs_Spec =
  Hostname :: string
  Process :: "specs_Process option"
  Mounts :: "specs_Mount list"
  Hooks :: "string list"
  Linux :: "specs_Linux option"

section \<open>Requests\<close>

text \<open>
  Modelled from the spec: the enumeration \<open>pb.SecurityMode\<close> is declared outside
  the given sources. The spec lists its variants as Insecure, Sandboxed and
  Unspecified; \<open>SecurityMode_Unspecified\<close> stands for every value that is neither
  \<open>pb.SecurityMode_SANDBOX\<close> nor \<open>pb.SecurityMode_INSECURE\<close>.
\<close>

datatype SecurityMode =
  SecurityMode_SANDBOX | SecurityMode_INSECURE | SecurityMode_Unspecified

text \<open>
  Modelled from the spec: the type \<open>ProcessMode\<close> is declared outside the given
  sources. \<open>NoProcessSandbox\<close> is the spec's HostProcessNamespace,
  \<open>ProcessSandbox\<close> its default SandboxedProcessNamespace.
\<close>

datatype ProcessMode = ProcessSandbox | NoProcessSandbox

text \<open>
  \<open>pb.Ulimit\<close>: a name and two integers. The source converts the integers with
  \<open>uint64(...)\<close>; they are kept as mathematical integers here and the conversion
  is written out in \<open>uint64\<close>.
\<close>

record pb_Ulimit =
  Name :: string
  Soft_u :: int
  Hard_u :: int

datatype pb_CDIDevice = CDIDevice string

section \<open>The host and the external collaborators\<close>

text \<open>
  What the host answers to \<open>selinux.GetEnabled()\<close>, \<open>cdseccomp.IsEnabled()\<close>
  and \<open>apparmor.HostSupports()\<close>.
\<close>

record Host =
  selinux_GetEnabled :: bool
  cdseccomp_IsEnabled :: bool
  apparmor_HostSupports :: bool

text \<open>
  What a run of the mutators leaves behind outside the spec: the calls made to the
  device manager and the warnings logged, in order.
\<close>

datatype Event =
    EvRefresh
  | EvWarnf string error
  | EvInjectDevices "pb_CDIDevice option list"

record 'm World =
  manager_state :: 'm
  trace :: "Event list"

text \<open>
  The device manager (\<open>cdidevices.Manager\<close>) is an external collaborator: its two
  methods are parameters. \<open>InjectDevices\<close> mutates the spec it is given and may
  return an error.
\<close>

record 'm Manager =
  Refresh :: "'m \<Rightarrow> error option \<times> 'm"
  InjectDevices ::
    "'m \<Rightarrow> specs_Spec \<Rightarrow> pb_CDIDevice option list \<Rightarrow> (error option \<times> specs_Spec) \<times> 'm"

text \<open>
  The mutators that libraries provide (\<open>security.WithInsecureSpec()\<close> and the
  \<open>oci.With...\<close> options of containerd).
\<close>

datatype LibOpt =
    WithInsecureSpec
  | WithWriteableCgroupfs
  | WithWriteableSysfs
  | WithApparmorProfile string
  | WithHostNamespace LinuxNamespaceType

text \<open>
  A spec mutator (\<open>oci.SpecOpts\<close>) is a closure in Go. Here it is the closure's
  code together with the variables it captured: \<open>InsecureLabels\<close> and
  \<open>SandboxLabels\<close> are the anonymous functions of \<open>generateSecurityOpts\<close>
  (capturing \<open>selinuxB\<close>), \<open>SetRlimits\<close> the one of \<open>generateRlimitOpts\<close>
  (capturing \<open>rlimits\<close>), \<open>WithCDIDevices\<close> the one of \<open>generateCDIOpts\<close>
  (capturing \<open>manager\<close> and \<open>devs\<close>).
\<close>

datatype 'm SpecOpts =
    Lib LibOpt
  | InsecureLabels bool
  | SandboxLabels bool
  | WithDefaultProfile
  | WithBoundProc
  | SetRlimits "specs_POSIXRlimit list"
  | WithCDIDevices "'m Manager" "pb_CDIDevice option list"

text \<open>
  The functions of other packages that the mutators call: \<open>hasPrefix\<close> (of this
  package, outside the given sources), \<open>strings.ToUpper\<close>, \<open>label.InitLabels\<close>,
  \<open>seccomp.GetDefaultProfile\<close>, and the library mutators.
\<close>

record Externals =
  hasPrefix :: "string \<Rightarrow> string \<Rightarrow> bool"
  strings_ToUpper :: "string \<Rightarrow> string"
  label_InitLabels :: "string list \<Rightarrow> string \<times> string \<times> error option"
  seccomp_GetDefaultProfile :: "specs_Spec \<Rightarrow> LinuxSeccomp option \<times> error option"
  libOpt :: "LibOpt \<Rightarrow> specs_Spec \<Rightarrow> specs_Spec outcome"

section \<open>The Security Mode Generator\<close>

definition generateSecurityOpts ::
  "Host \<Rightarrow> SecurityMode \<Rightarrow> string \<Rightarrow> bool \<Rightarrow> 'm SpecOpts list \<times> error option" where
  "generateSecurityOpts host mode apparmorProfile selinuxB =
     (if selinuxB \<and> \<not> selinux_GetEnabled host
      then ([], Some (ErrNew ''selinux is not available''))
      else case mode of
        SecurityMode_INSECURE \<Rightarrow>
          ([Lib WithInsecureSpec, Lib WithWriteableCgroupfs, Lib WithWriteableSysfs,
            InsecureLabels selinuxB], None)
      | SecurityMode_SANDBOX \<Rightarrow>
          (let opts = (if cdseccomp_IsEnabled host then [] @ [WithDefaultProfile] else [])
           in if apparmorProfile \<noteq> []
              then if \<not> apparmor_HostSupports host
                   then ([], Some (ErrNew
                     (''AppArmor is not supported on this host, but the profile ''
                      @ [CHR 0x27] @ apparmorProfile @ [CHR 0x27] @ '' was specified'')))
                   else (opts @ [Lib (WithApparmorProfile apparmorProfile)]
                         @ [SandboxLabels selinuxB], None)
              else (opts @ [SandboxLabels selinuxB], None))
      | SecurityMode_Unspecified \<Rightarrow> ([], None))"

section \<open>The mutators of this file\<close>

text \<open>
  \<open>removeMountsWithPrefix\<close>: the loop appends to \<open>ret\<close> every mount whose
  destination does not have the prefix.
\<close>

primrec removeMounts_loop ::
  "(string \<Rightarrow> string \<Rightarrow> bool) \<Rightarrow> string \<Rightarrow> specs_Mount list \<Rightarrow> specs_Mount list
   \<Rightarrow> specs_Mount list" where
  "removeMounts_loop hp prefixDir ret [] = ret"
| "removeMounts_loop hp prefixDir ret (m # ms) =
     removeMounts_loop hp prefixDir
       (if \<not> hp (Destination m) prefixDir then ret @ [m] else ret) ms"

definition removeMountsWithPrefix ::
  "(string \<Rightarrow> string \<Rightarrow> bool) \<Rightarrow> specs_Mount list \<Rightarrow> string \<Rightarrow> specs_Mount list" where
  "removeMountsWithPrefix hp mounts prefixDir = removeMounts_loop hp prefixDir [] mounts"

text \<open>
  The two loops of \<open>withBoundProc\<close> over \<open>s.Linux.MaskedPaths\<close> and
  \<open>s.Linux.ReadonlyPaths\<close>: they append every path that does not have the prefix
  \<open>/proc\<close>.
\<close>

primrec keepPaths_loop ::
  "(string \<Rightarrow> string \<Rightarrow> bool) \<Rightarrow> string list \<Rightarrow> string list \<Rightarrow> string list" where
  "keepPaths_loop hp acc [] = acc"
| "keepPaths_loop hp acc (p # ps) =
     keepPaths_loop hp (if \<not> hp p ''/proc'' then acc @ [p] else acc) ps"

definition procMount :: specs_Mount where
  "procMount =
     \<lparr>Destination = ''/proc'', Type = ''bind'', Source = ''/proc'', Options = [''rbind'']\<rparr>"

definition withBoundProc ::
  "(string \<Rightarrow> string \<Rightarrow> bool) \<Rightarrow> specs_Spec \<Rightarrow> specs_Spec outcome" where
  "withBoundProc hp s =
     (let s1 = s\<lparr>Mounts := removeMountsWithPrefix hp (Mounts s) ''/proc''\<rparr>;
          s2 = s1\<lparr>Mounts := [procMount] @ Mounts s1\<rparr>
      in case Linux s2 of
           None \<Rightarrow> Panicked
         | Some l \<Rightarrow>
             (let maskedPaths = keepPaths_loop hp [] (MaskedPaths l);
                  l1 = l\<lparr>MaskedPaths := maskedPaths\<rparr>;
                  readonlyPaths = keepPaths_loop hp [] (ReadonlyPaths l1);
                  l2 = l1\<lparr>ReadonlyPaths := readonlyPaths\<rparr>
              in Returned None (s2\<lparr>Linux := Some l2\<rparr>)))"

definition withDefaultProfile :: "Externals \<Rightarrow> specs_Spec \<Rightarrow> specs_Spec outcome" where
  "withDefaultProfile X s =
     (case Linux s of
        None \<Rightarrow> Panicked
      | Some l \<Rightarrow>
          (let (profile, err) = seccomp_GetDefaultProfile X s
           in Returned err (s\<lparr>Linux := Some (l\<lparr>Seccomp := profile\<rparr>)\<rparr>)))"

text \<open>
  The two anonymous mutators of \<open>generateSecurityOpts\<close>. They differ in the
  argument of \<open>label.InitLabels\<close>: \<open>[]string{"disable"}\<close> in insecure mode, nil
  in sandbox mode.
\<close>

definition selinuxLabels ::
  "Externals \<Rightarrow> string list \<Rightarrow> bool \<Rightarrow> specs_Spec \<Rightarrow> specs_Spec outcome" where
  "selinuxLabels X options selinuxB s =
     (if selinuxB
      then (case (Process s, Linux s) of
              (Some p, Some l) \<Rightarrow>
                (let (processLabel, mountLabel, err) = label_InitLabels X options
                 in Returned err
                      (s\<lparr>Process := Some (p\<lparr>SelinuxLabel := processLabel\<rparr>),
                         Linux := Some (l\<lparr>MountLabel := mountLabel\<rparr>)\<rparr>))
            | _ \<Rightarrow> Panicked)
      else Returned None s)"

text \<open>The anonymous mutator of \<open>generateRlimitOpts\<close>: \<open>s.Process.Rlimits = rlimits\<close>.\<close>

definition setRlimits :: "specs_POSIXRlimit list \<Rightarrow> specs_Spec \<Rightarrow> specs_Spec outcome" where
  "setRlimits rlimits s =
     (case Process s of
        None \<Rightarrow> Panicked
      | Some p \<Rightarrow> Returned None (s\<lparr>Process := Some (p\<lparr>Rlimits := rlimits\<rparr>)\<rparr>))"

text \<open>
  The mutator \<open>withCDIDevices(devs)\<close> of \<open>generateCDIOpts\<close>: refresh the
  registry, log a warning if that failed, inject the devices, wrap an injection
  error.
\<close>

definition withCDIDevices ::
  "'m Manager \<Rightarrow> pb_CDIDevice option list \<Rightarrow> 'm World \<times> specs_Spec
   \<Rightarrow> ('m World \<times> specs_Spec) outcome" where
  "withCDIDevices manager devs ws =
     (let (w, s) = ws;
          (rerr, ms1) = Refresh manager (manager_state w);
          w1 = w\<lparr>manager_state := ms1, trace := trace w @ [EvRefresh]\<rparr>;
          w2 = (case rerr of
                  Some err \<Rightarrow>
                    w1\<lparr>trace := trace w1 @ [EvWarnf ''CDI registry refresh failed: %v'' err]\<rparr>
                | None \<Rightarrow> w1);
          ((ierr, s'), ms2) = InjectDevices manager (manager_state w2) s devs;
          w3 = w2\<lparr>manager_state := ms2, trace := trace w2 @ [EvInjectDevices devs]\<rparr>
      in case ierr of
           Some err \<Rightarrow> Returned (Some (ErrWrapf err ''CDI device injection failed'')) (w3, s')
         | None \<Rightarrow> Returned None (w3, s'))"

text \<open>Running one mutator on a spec.\<close>

definition liftSpec ::
  "(specs_Spec \<Rightarrow> specs_Spec outcome) \<Rightarrow> 'm World \<times> specs_Spec
   \<Rightarrow> ('m World \<times> specs_Spec) outcome" where
  "liftSpec f ws =
     (case f (snd ws) of
        Panicked \<Rightarrow> Panicked
      | Returned err s' \<Rightarrow> Returned err (fst ws, s'))"

fun applyOpt ::
  "Externals \<Rightarrow> 'm SpecOpts \<Rightarrow> 'm World \<times> specs_Spec \<Rightarrow> ('m World \<times> specs_Spec) outcome" where
  "applyOpt X (Lib opt) ws = liftSpec (libOpt X opt) ws"
| "applyOpt X (InsecureLabels selinuxB) ws = liftSpec (selinuxLabels X [''disable''] selinuxB) ws"
| "applyOpt X (SandboxLabels selinuxB) ws = liftSpec (selinuxLabels X [] selinuxB) ws"
| "applyOpt X WithDefaultProfile ws = liftSpec (withDefaultProfile X) ws"
| "applyOpt X WithBoundProc ws = liftSpec (withBoundProc (hasPrefix X)) ws"
| "applyOpt X (SetRlimits rlimits) ws = liftSpec (setRlimits rlimits) ws"
| "applyOpt X (WithCDIDevices manager devs) ws = withCDIDevices manager devs ws"

text \<open>
  Modelled from the spec: the orchestrator that applies a list of mutators is
  outside the given sources. The spec has it apply them in order and abort on the
  first failure.
\<close>

fun applyOpts ::
  "Externals \<Rightarrow> 'm SpecOpts list \<Rightarrow> 'm World \<times> specs_Spec
   \<Rightarrow> ('m World \<times> specs_Spec) outcome" where
  "applyOpts X [] ws = Returned None ws"
| "applyOpts X (opt # opts) ws =
     (case applyOpt X opt ws of
        Panicked \<Rightarrow> Panicked
      | Returned (Some err) ws' \<Rightarrow> Returned (Some err) ws'
      | Returned None ws' \<Rightarrow> applyOpts X opts ws')"

section \<open>The Process Mode, Resource Limit and Device Injection Generators\<close>

definition generateProcessModeOpts :: "ProcessMode \<Rightarrow> 'm SpecOpts list \<times> error option" where
  "generateProcessModeOpts mode =
     (if mode = NoProcessSandbox
      then ([Lib (WithHostNamespace PIDNamespace), WithBoundProc], None)
      else ([], None))"

text \<open>Go's conversion of an integer to \<open>uint64\<close>: the value modulo \<open>2 ^ 64\<close>.\<close>

definition uint64 :: "int \<Rightarrow> 64 word" where
  "uint64 i = word_of_int i"

definition rlimitOf :: "(string \<Rightarrow> string) \<Rightarrow> pb_Ulimit \<Rightarrow> specs_POSIXRlimit" where
  "rlimitOf toUpper u =
     \<lparr>Type_rl = ''RLIMIT_'' @ toUpper (Name u), Hard = uint64 (Hard_u u), Soft = uint64 (Soft_u u)\<rparr>"

primrec rlimits_loop ::
  "(string \<Rightarrow> string) \<Rightarrow> specs_POSIXRlimit list \<Rightarrow> pb_Ulimit option list
   \<Rightarrow> specs_POSIXRlimit list" where
  "rlimits_loop toUpper rlimits [] = rlimits"
| "rlimits_loop toUpper rlimits (x # ulimits) =
     (case x of
        None \<Rightarrow> rlimits_loop toUpper rlimits ulimits
      | Some u \<Rightarrow> rlimits_loop toUpper (rlimits @ [rlimitOf toUpper u]) ulimits)"

definition generateRlimitOpts ::
  "Externals \<Rightarrow> pb_Ulimit option list \<Rightarrow> 'm SpecOpts list \<times> error option" where
  "generateRlimitOpts X ulimits =
     (if length ulimits = 0 then ([], None)
      else ([SetRlimits (rlimits_loop (strings_ToUpper X) [] ulimits)], None))"

definition generateCDIOpts ::
  "'m Manager \<Rightarrow> pb_CDIDevice option list \<Rightarrow> 'm SpecOpts list \<times> error option" where
  "generateCDIOpts manager devs =
     (if length devs = 0 then ([], None)
      else ([WithCDIDevices manager devs], None))"

section \<open>The Capability Probe\<close>

text \<open>
  \<open>os.Stat\<close> either succeeds (\<open>None\<close>) or fails with an error number, and
  \<open>os.IsNotExist\<close> recognises one of them. The host's file system is the function
  that answers \<open>os.Stat\<close>.
\<close>

datatype Errno = ENOENT | ENOTDIR | EACCES

definition os_IsNotExist :: "Errno option \<Rightarrow> bool" where
  "os_IsNotExist err = (err = Some ENOENT)"

text \<open>
  The package variables \<open>cgroupNSOnce\<close> (whether the \<open>sync.Once\<close> has run) and
  \<open>supportsCgroupNS\<close>, and the paths that \<open>os.Stat\<close> was asked for so far.
\<close>

record ProbeState =
  cgroupNSOnce :: bool
  supportsCgroupNS :: bool
  statCalls :: "string list"

definition initialProbeState :: ProbeState where
  "initialProbeState = \<lparr>cgroupNSOnce = False, supportsCgroupNS = False, statCalls = []\<rparr>"

text \<open>The function passed to \<open>cgroupNSOnce.Do\<close>.\<close>

definition probeCgroupNS :: "(string \<Rightarrow> Errno option) \<Rightarrow> ProbeState \<Rightarrow> ProbeState" where
  "probeCgroupNS os_Stat st =
     (let st1 = st\<lparr>statCalls := statCalls st @ [''/proc/self/ns/cgroup'']\<rparr>
      in if os_IsNotExist (os_Stat ''/proc/self/ns/cgroup'') then st1
         else (let st2 = st1\<lparr>statCalls :=
                           statCalls st1 @ [''/sys/fs/cgroup/cgroup.subtree_control'']\<rparr>
               in if os_IsNotExist (os_Stat ''/sys/fs/cgroup/cgroup.subtree_control'') then st2
                  else st2\<lparr>supportsCgroupNS := True\<rparr>))"

text \<open>\<open>sync.Once.Do\<close>: the function runs on the first call only.\<close>

definition once_Do :: "(ProbeState \<Rightarrow> ProbeState) \<Rightarrow> ProbeState \<Rightarrow> ProbeState" where
  "once_Do f st = (if cgroupNSOnce st then st else (f st)\<lparr>cgroupNSOnce := True\<rparr>)"

definition cgroupV2NamespaceSupported ::
  "(string \<Rightarrow> Errno option) \<Rightarrow> ProbeState \<Rightarrow> bool \<times> ProbeState" where
  "cgroupV2NamespaceSupported os_Stat st =
     (let st' = once_Do (probeCgroupNS os_Stat) st in (supportsCgroupNS st', st'))"

text \<open>
  A sequence of calls of the probe, one for each host state in the list (the file
  system may change between two calls); it collects the answers.
\<close>

fun probeCalls ::
  "(string \<Rightarrow> Errno option) list \<Rightarrow> ProbeState \<Rightarrow> bool list \<times> ProbeState" where
  "probeCalls [] st = ([], st)"
| "probeCalls (os_Stat # rest) st =
     (let (r, st1) = cgroupV2NamespaceSupported os_Stat st;
          (rs, st2) = probeCalls rest st1
      in (r # rs, st2))"

text \<open>A path exists on a host when \<open>os.Stat\<close> finds it.\<close>

definition pathExists :: "(string \<Rightarrow> Errno option) \<Rightarrow> string \<Rightarrow> bool" where
  "pathExists os_Stat p = (os_Stat p = None)"

section \<open>The Safe Subpath Resolver\<close>

record mount_Mount =
  Type_m :: string
  Source_m :: string
  Target_m :: string
  Options_m :: "string list"

text \<open>
  The function \<open>lm.Unmount\<close> that \<open>sub\<close> returns: the unmount of the local
  mounter built from these mounts.
\<close>

datatype Unmount = LocalMounter_Unmount "mount_Mount list"

text \<open>
  What the operating system answers in one pass of the loop of \<open>sub\<close>: to
  \<open>fs.RootPath\<close>, to \<open>os.OpenFile\<close> (the number of the descriptor), to
  \<open>os.Readlink\<close> and to \<open>lm.Mount()\<close>. The file system can change between any
  two calls, so each pass has answers of its own: the environment is the function
  from the number of the pass to its answers.
\<close>

record Attempt =
  fs_RootPath :: "error + string"
  os_OpenFile :: "error + int"
  os_Readlink :: "error + string"
  lm_Mount :: "error + string"

datatype SysCall =
    SysRootPath string string
  | SysOpenFile string
  | SysReadlink string
  | SysClose int
  | SysMount "mount_Mount list"

text \<open>\<open>strconv.Itoa\<close>: the decimal digits of an integer.\<close>

fun digits :: "nat \<Rightarrow> string" where
  "digits n =
     (if n < 10 then [char_of (48 + n)]
      else digits (n div 10) @ [char_of (48 + n mod 10)])"

definition strconv_Itoa :: "int \<Rightarrow> string" where
  "strconv_Itoa i = (if i < 0 then ''-'' @ digits (nat (- i)) else digits (nat i))"

text \<open>
  The loop of \<open>sub\<close>. \<open>retries\<close> is the loop's variable, \<open>i\<close> counts the passes
  and \<open>calls\<close> collects the system calls made.
\<close>

function sub_loop ::
  "(nat \<Rightarrow> Attempt) \<Rightarrow> mount_Mount \<Rightarrow> string \<Rightarrow> string \<Rightarrow> int \<Rightarrow> nat \<Rightarrow> SysCall list
   \<Rightarrow> (error + mount_Mount \<times> Unmount) \<times> SysCall list" where
  "sub_loop env m subPath root retries i calls =
     (let calls1 = calls @ [SysRootPath root subPath]
      in case fs_RootPath (env i) of
           Inl err \<Rightarrow> (Inl err, calls1)
         | Inr src \<Rightarrow>
             (let calls2 = calls1 @ [SysOpenFile src]
              in case os_OpenFile (env i) of
                   Inl err \<Rightarrow> (Inl (ErrWithStack err), calls2)
                 | Inr fd \<Rightarrow>
                     (let fdPath = ''/proc/self/fd/'' @ strconv_Itoa fd;
                          calls3 = calls2 @ [SysReadlink fdPath]
                      in case os_Readlink (env i) of
                           Inl err \<Rightarrow> (Inl (ErrWithStack err), calls3 @ [SysClose fd])
                         | Inr resolved \<Rightarrow>
                             if resolved \<noteq> src
                             then if retries - 1 \<le> 0
                                  then (Inl (ErrNew (''unable to safely resolve subpath '' @ subPath)),
                                        calls3 @ [SysClose fd])
                                  else sub_loop env m subPath root (retries - 1) (Suc i)
                                         (calls3 @ [SysClose fd])
                             else (let m1 = m\<lparr>Source_m := fdPath\<rparr>;
                                       calls4 = calls3 @ [SysMount [m1]]
                                   in case lm_Mount (env i) of
                                        Inl err \<Rightarrow> (Inl err, calls4 @ [SysClose fd])
                                      | Inr mp \<Rightarrow>
                                          (Inr (m1\<lparr>Source_m := mp\<rparr>, LocalMounter_Unmount [m1]),
                                           calls4 @ [SysClose fd])))))"
  by pat_completeness auto
termination
  by (relation "measure (\<lambda>(env, m, subPath, root, retries, i, calls). nat retries)") auto

definition sub ::
  "(nat \<Rightarrow> Attempt) \<Rightarrow> mount_Mount \<Rightarrow> string
   \<Rightarrow> (error + mount_Mount \<times> Unmount) \<times> SysCall list" where
  "sub env m subPath = sub_loop env m subPath (Source_m m) 10 0 []"

text \<open>The number of passes of the loop: every pass that gets to \<open>os.OpenFile\<close> calls it once.\<close>

fun isOpenFile :: "SysCall \<Rightarrow> bool" where
  "isOpenFile (SysOpenFile p) = True"
| "isOpenFile c = False"

definition attempts :: "SysCall list \<Rightarrow> nat" where
  "attempts calls = length (filter isOpenFile calls)"

text \<open>
  A pass of the loop in which a symlink was swapped in: \<open>fs.RootPath\<close>,
  \<open>os.OpenFile\<close> and \<open>os.Readlink\<close> succeed, and the path read back through
  the descriptor is not the path that was computed.
\<close>

definition swapped :: "Attempt \<Rightarrow> bool" where
  "swapped a =
     (case (fs_RootPath a, os_OpenFile a, os_Readlink a) of
        (Inr src, Inr fd, Inr resolved) \<Rightarrow> resolved \<noteq> src
      | _ \<Rightarrow> False)"

section \<open>An instance of the external collaborators\<close>

text \<open>
  The theorems below hold for every choice of the external collaborators. The
  examples need one choice, which is made here.
\<close>

text \<open>\<open>strings.ToUpper\<close> on ASCII strings: the letters a to z become A to Z.\<close>

definition toUpperASCII :: "string \<Rightarrow> string" where
  "toUpperASCII str =
     map (\<lambda>c. if 97 \<le> (of_char c :: nat) \<and> (of_char c :: nat) \<le> 122
              then char_of ((of_char c :: nat) - 32) else c) str"

text \<open>
  Modelled from the spec: \<open>hasPrefix\<close> is outside the given sources. The spec has
  it hold of a path that is the prefix directory or lies under it.
\<close>

definition hasPrefix_spec :: "string \<Rightarrow> string \<Rightarrow> bool" where
  "hasPrefix_spec p prefixDir =
     (p = prefixDir \<or> take (length prefixDir + 1) p = prefixDir @ ''/'')"

text \<open>
  A stand-in for the library mutators. For \<open>oci.WithHostNamespace\<close> it allocates
  \<open>s.Linux\<close> when that is nil and removes the first namespace entry of the given
  type; the other library mutators are not described and return the spec as it is.
\<close>

fun removeNamespace ::
  "LinuxNamespaceType \<Rightarrow> (LinuxNamespaceType \<times> string) list
   \<Rightarrow> (LinuxNamespaceType \<times> string) list" where
  "removeNamespace ns [] = []"
| "removeNamespace ns (n # rest) = (if fst n = ns then rest else n # removeNamespace ns rest)"

definition example_libOpt :: "LibOpt \<Rightarrow> specs_Spec \<Rightarrow> specs_Spec outcome" where
  "example_libOpt opt s =
     (case opt of
        WithHostNamespace ns \<Rightarrow>
          (let l = (case Linux s of
                      None \<Rightarrow> \<lparr>Namespaces = [], MaskedPaths = [], ReadonlyPaths = [],
                                Seccomp = None, MountLabel = []\<rparr>
                    | Some l \<Rightarrow> l)
           in Returned None (s\<lparr>Linux := Some (l\<lparr>Namespaces := removeNamespace ns (Namespaces l)\<rparr>)\<rparr>))
      | _ \<Rightarrow> Returned None s)"

definition exampleExternals :: Externals where
  "exampleExternals =
     \<lparr>hasPrefix = hasPrefix_spec,
      strings_ToUpper = toUpperASCII,
      label_InitLabels = (\<lambda>options. ([], [], None)),
      seccomp_GetDefaultProfile = (\<lambda>s. (Some (LinuxSeccomp ''default''), None)),
      libOpt = example_libOpt\<rparr>"

definition exampleProcess :: specs_Process where
  "exampleProcess =
     \<lparr>Args = [''/bin/sh''], Env = [''PATH=/usr/bin''],
      Rlimits = [\<lparr>Type_rl = ''RLIMIT_CORE'', Hard = 0, Soft = 0\<rparr>],
      ApparmorProfile = [], SelinuxLabel = []\<rparr>"

definition exampleLinux :: specs_Linux where
  "exampleLinux =
     \<lparr>Namespaces = [(PIDNamespace, []), (MountNamespace, [])],
      MaskedPaths = [''/proc/kcore'', ''/sys/firmware'', ''/proc''],
      ReadonlyPaths = [''/proc/sys'', ''/sys/fs/cgroup'', ''/process''],
      Seccomp = None, MountLabel = []\<rparr>"

definition exampleSpec :: specs_Spec where
  "exampleSpec =
     \<lparr>Hostname = ''buildkitsandbox'',
      Process = Some exampleProcess,
      Mounts =
        [\<lparr>Destination = ''/proc'', Type = ''proc'', Source = ''proc'', Options = [''nosuid'']\<rparr>,
         \<lparr>Destination = ''/dev'', Type = ''tmpfs'', Source = ''tmpfs'', Options = [''nosuid'']\<rparr>,
         \<lparr>Destination = ''/proc/sys'', Type = ''bind'', Source = ''/proc/sys'', Options = [''ro'']\<rparr>,
         \<lparr>Destination = ''/process'', Type = ''bind'', Source = ''/tmp'', Options = [''ro'']\<rparr>],
      Hooks = [],
      Linux = Some exampleLinux\<rparr>"

definition exampleWorld :: "unit World" where
  "exampleWorld = \<lparr>manager_state = (), trace = []\<rparr>"

text \<open>
  A device manager whose registry refresh fails and whose injection adds a hook.
\<close>

definition exampleManager :: "unit Manager" where
  "exampleManager =
     \<lparr>Refresh = (\<lambda>ms. (Some (ErrForeign ''registry unreadable''), ms)),
      InjectDevices = (\<lambda>ms s devs. ((None, s\<lparr>Hooks := Hooks s @ [''cdi-hook'']\<rparr>), ms))\<rparr>"

text \<open>A mount, and a host on which the path is swapped in every pass.\<close>

definition exampleMount :: mount_Mount where
  "exampleMount =
     \<lparr>Type_m = ''bind'', Source_m = ''/tmp/root'', Target_m = ''/mnt'', Options_m = [''rbind'']\<rparr>"

definition swappingHost :: "nat \<Rightarrow> Attempt" where
  "swappingHost i =
     \<lparr>fs_RootPath = Inr ''/tmp/root/a/b'', os_OpenFile = Inr 7, os_Readlink = Inr ''/etc'',
      lm_Mount = Inr ''/run/mp''\<rparr>"

definition exampleHost :: Host where
  "exampleHost =
     \<lparr>selinux_GetEnabled = False, cdseccomp_IsEnabled = True, apparmor_HostSupports = False\<rparr>"


declare sub_loop.simps [simp del]

section \<open>The Security Mode Generator: properties\<close>

text \<open>
  Claim C2. In sandbox mode, when an AppArmor profile is named and the host does not
  support AppArmor, \<open>generateSecurityOpts\<close> returns an error and no mutator, so
  nothing is applied to the spec. The error is the AppArmor one, unless SELinux
  labels were requested on a host without SELinux: that check comes first and
  fails in the same way.
\<close>

theorem C2_apparmor_unsupported_fails:
  fixes ws :: "'m World \<times> specs_Spec"
  assumes "apparmorProfile \<noteq> []" and "\<not> apparmor_HostSupports host"
  shows "generateSecurityOpts host SecurityMode_SANDBOX apparmorProfile selinuxB =
           ([], Some (if selinuxB \<and> \<not> selinux_GetEnabled host
                      then ErrNew ''selinux is not available''
                      else ErrNew (''AppArmor is not supported on this host, but the profile ''
                                   @ [CHR 0x27] @ apparmorProfile @ [CHR 0x27]
                                   @ '' was specified'')))
       \<and> applyOpts X (fst (generateSecurityOpts host SecurityMode_SANDBOX apparmorProfile selinuxB)) ws
           = Returned None ws"
  using assms by (simp add: generateSecurityOpts_def)

theorem C2_apparmor_unsupported_fails_witness:
  "(generateSecurityOpts exampleHost SecurityMode_SANDBOX ''docker-default'' False
      :: unit SpecOpts list \<times> error option)
     = ([], Some (ErrNew
          ''AppArmor is not supported on this host, but the profile 'docker-default' was specified''))
   \<and> applyOpts exampleExternals
        (fst (generateSecurityOpts exampleHost SecurityMode_SANDBOX ''docker-default'' False))
        (exampleWorld, exampleSpec)
     = Returned None (exampleWorld, exampleSpec)"
proof -
  have h1: "''docker-default'' \<noteq> []" by simp
  have h2: "\<not> apparmor_HostSupports exampleHost" by (simp add: exampleHost_def)
  show ?thesis
    using C2_apparmor_unsupported_fails
      [OF h1 h2, of False exampleExternals "(exampleWorld, exampleSpec)"]
    by simp
qed

text \<open>
  Claim C4. In insecure mode, when SELinux labels are requested and SELinux is not
  enabled on the host, \<open>generateSecurityOpts\<close> returns the error
  "selinux is not available" and no mutator.
\<close>

theorem C4_insecure_selinux_unavailable:
  assumes "\<not> selinux_GetEnabled host"
  shows "generateSecurityOpts host SecurityMode_INSECURE apparmorProfile True =
           ([], Some (ErrNew ''selinux is not available''))"
  using assms by (simp add: generateSecurityOpts_def)

theorem C4_insecure_selinux_unavailable_witness:
  "(generateSecurityOpts exampleHost SecurityMode_INSECURE [] True
      :: unit SpecOpts list \<times> error option)
     = ([], Some (ErrNew ''selinux is not available''))"
proof -
  have h: "\<not> selinux_GetEnabled exampleHost" by (simp add: exampleHost_def)
  show ?thesis
    using C4_insecure_selinux_unavailable [OF h, of "[]", where ?'a = unit] by simp
qed

text \<open>
  Against claim C5 as it is written: with the mode unspecified, SELinux labels
  requested and SELinux not enabled, the generator returns an error.
\<close>

theorem C5_unspecified_counterexample:
  "(generateSecurityOpts
      \<lparr>selinux_GetEnabled = False, cdseccomp_IsEnabled = True, apparmor_HostSupports = True\<rparr>
      SecurityMode_Unspecified [] True :: unit SpecOpts list \<times> error option)
     = ([], Some (ErrNew ''selinux is not available''))
   \<and> snd (generateSecurityOpts
      \<lparr>selinux_GetEnabled = False, cdseccomp_IsEnabled = True, apparmor_HostSupports = True\<rparr>
      SecurityMode_Unspecified [] True :: unit SpecOpts list \<times> error option) \<noteq> None"
  by (simp add: generateSecurityOpts_def)

text \<open>
  Claim C5, amended. With the mode unspecified, \<open>generateSecurityOpts\<close> returns no
  mutator whatever the AppArmor profile name. It returns no error either, except
  when SELinux labels are requested and SELinux is not enabled on the host: then it
  returns the error "selinux is not available".
\<close>

theorem C5_unspecified_amended:
  "generateSecurityOpts host SecurityMode_Unspecified apparmorProfile selinuxB =
     (if selinuxB \<and> \<not> selinux_GetEnabled host
      then ([], Some (ErrNew ''selinux is not available''))
      else ([], None))"
  by (simp add: generateSecurityOpts_def)



section \<open>The Process Mode Generator: properties\<close>

lemma removeMounts_loop_filter:
  "removeMounts_loop hp d ret ms = ret @ filter (\<lambda>m. \<not> hp (Destination m) d) ms"
  by (induction ms arbitrary: ret) simp_all

lemma removeMountsWithPrefix_filter:
  "removeMountsWithPrefix hp ms d = filter (\<lambda>m. \<not> hp (Destination m) d) ms"
  by (simp add: removeMountsWithPrefix_def removeMounts_loop_filter)

lemma keepPaths_loop_filter:
  "keepPaths_loop hp acc ps = acc @ filter (\<lambda>p. \<not> hp p ''/proc'') ps"
  by (induction ps arbitrary: acc) simp_all

lemma withBoundProc_Some:
  "Linux s = Some l \<Longrightarrow>
   withBoundProc hp s =
     Returned None
       (s\<lparr>Mounts := procMount # filter (\<lambda>m. \<not> hp (Destination m) ''/proc'') (Mounts s),
          Linux := Some (l\<lparr>MaskedPaths := filter (\<lambda>p. \<not> hp p ''/proc'') (MaskedPaths l),
                           ReadonlyPaths := filter (\<lambda>p. \<not> hp p ''/proc'') (ReadonlyPaths l)\<rparr>)\<rparr>)"
  by (simp add: withBoundProc_def removeMountsWithPrefix_filter keepPaths_loop_filter Let_def)

lemma withBoundProc_nil_Linux: "Linux s = None \<Longrightarrow> withBoundProc hp s = Panicked"
  by (simp add: withBoundProc_def Let_def)

text \<open>
  Claim C3. For the mode \<open>NoProcessSandbox\<close> the generator returns two mutators:
  the library's \<open>WithHostNamespace\<close> for the PID namespace, then \<open>withBoundProc\<close>.
  Let the first one return without error, leaving a spec \<open>s1\<close> whose \<open>Linux\<close>
  block is allocated. Then applying both succeeds, and in the resulting spec the
  first mount is the bind mount of \<open>/proc\<close> from \<open>/proc\<close> with the options
  \<open>["rbind"]\<close>; the mounts after it are the mounts of \<open>s1\<close> whose destination
  does not have the prefix \<open>/proc\<close>, in their order; and the masked paths and the
  read-only paths are those of \<open>s1\<close> without the prefix \<open>/proc\<close>. For the mode
  \<open>ProcessSandbox\<close> the generator returns no mutator.
\<close>

theorem C3_host_process_namespace:
  fixes w :: "'m World"
  assumes ext: "libOpt X (WithHostNamespace PIDNamespace) s = Returned None s1"
    and lin: "Linux s1 = Some l"
  shows "\<exists>s2 l2.
      applyOpts X (fst (generateProcessModeOpts NoProcessSandbox)) (w, s) = Returned None (w, s2)
    \<and> (generateProcessModeOpts NoProcessSandbox :: 'm SpecOpts list \<times> error option)
        = ([Lib (WithHostNamespace PIDNamespace), WithBoundProc], None)
    \<and> applyOpt X WithBoundProc (w, s1) = Returned None (w, s2)
    \<and> Mounts s2 =
        \<lparr>Destination = ''/proc'', Type = ''bind'', Source = ''/proc'', Options = [''rbind'']\<rparr>
        # filter (\<lambda>m. \<not> hasPrefix X (Destination m) ''/proc'') (Mounts s1)
    \<and> (\<forall>m \<in> set (tl (Mounts s2)). \<not> hasPrefix X (Destination m) ''/proc'')
    \<and> Linux s2 = Some l2
    \<and> MaskedPaths l2 = filter (\<lambda>p. \<not> hasPrefix X p ''/proc'') (MaskedPaths l)
    \<and> ReadonlyPaths l2 = filter (\<lambda>p. \<not> hasPrefix X p ''/proc'') (ReadonlyPaths l)
    \<and> (\<forall>p \<in> set (MaskedPaths l2). \<not> hasPrefix X p ''/proc'')
    \<and> (\<forall>p \<in> set (ReadonlyPaths l2). \<not> hasPrefix X p ''/proc'')
    \<and> (generateProcessModeOpts ProcessSandbox :: 'm SpecOpts list \<times> error option) = ([], None)"
  using ext lin
  by (simp add: generateProcessModeOpts_def liftSpec_def withBoundProc_Some procMount_def)

theorem C3_host_process_namespace_witness:
  "\<exists>s2 l2.
      applyOpts exampleExternals (fst (generateProcessModeOpts NoProcessSandbox))
        (exampleWorld, exampleSpec) = Returned None (exampleWorld, s2)
    \<and> Mounts s2 =
        [\<lparr>Destination = ''/proc'', Type = ''bind'', Source = ''/proc'', Options = [''rbind'']\<rparr>,
         \<lparr>Destination = ''/dev'', Type = ''tmpfs'', Source = ''tmpfs'', Options = [''nosuid'']\<rparr>,
         \<lparr>Destination = ''/process'', Type = ''bind'', Source = ''/tmp'', Options = [''ro'']\<rparr>]
    \<and> Linux s2 = Some l2
    \<and> MaskedPaths l2 = [''/sys/firmware'']
    \<and> ReadonlyPaths l2 = [''/sys/fs/cgroup'', ''/process'']"
proof -
  have h1: "libOpt exampleExternals (WithHostNamespace PIDNamespace) exampleSpec
      = Returned None
          (exampleSpec\<lparr>Linux := Some (exampleLinux\<lparr>Namespaces := [(MountNamespace, [])]\<rparr>)\<rparr>)"
    by (simp add: exampleExternals_def example_libOpt_def exampleSpec_def exampleLinux_def)
  have h2: "Linux (exampleSpec\<lparr>Linux := Some (exampleLinux\<lparr>Namespaces := [(MountNamespace, [])]\<rparr>)\<rparr>)
      = Some (exampleLinux\<lparr>Namespaces := [(MountNamespace, [])]\<rparr>)"
    by simp
  have hp: "hasPrefix exampleExternals ''/proc'' ''/proc''"
    "\<not> hasPrefix exampleExternals ''/dev'' ''/proc''"
    "hasPrefix exampleExternals ''/proc/sys'' ''/proc''"
    "\<not> hasPrefix exampleExternals ''/process'' ''/proc''"
    "hasPrefix exampleExternals ''/proc/kcore'' ''/proc''"
    "\<not> hasPrefix exampleExternals ''/sys/firmware'' ''/proc''"
    "\<not> hasPrefix exampleExternals ''/sys/fs/cgroup'' ''/proc''"
    by (simp_all add: exampleExternals_def hasPrefix_spec_def)
  from C3_host_process_namespace [OF h1 h2, of exampleWorld]
  obtain s2 l2 where
    a: "applyOpts exampleExternals (fst (generateProcessModeOpts NoProcessSandbox))
        (exampleWorld, exampleSpec) = Returned None (exampleWorld, s2)"
    and m: "Mounts s2 =
        \<lparr>Destination = ''/proc'', Type = ''bind'', Source = ''/proc'', Options = [''rbind'']\<rparr>
        # filter (\<lambda>m. \<not> hasPrefix exampleExternals (Destination m) ''/proc'')
          (Mounts (exampleSpec\<lparr>Linux := Some (exampleLinux\<lparr>Namespaces := [(MountNamespace, [])]\<rparr>)\<rparr>))"
    and d: "Linux s2 = Some l2"
    and e: "MaskedPaths l2 = filter (\<lambda>p. \<not> hasPrefix exampleExternals p ''/proc'')
          (MaskedPaths (exampleLinux\<lparr>Namespaces := [(MountNamespace, [])]\<rparr>))"
    and f: "ReadonlyPaths l2 = filter (\<lambda>p. \<not> hasPrefix exampleExternals p ''/proc'')
          (ReadonlyPaths (exampleLinux\<lparr>Namespaces := [(MountNamespace, [])]\<rparr>))"
    by blast
  have "Mounts s2 =
        [\<lparr>Destination = ''/proc'', Type = ''bind'', Source = ''/proc'', Options = [''rbind'']\<rparr>,
         \<lparr>Destination = ''/dev'', Type = ''tmpfs'', Source = ''tmpfs'', Options = [''nosuid'']\<rparr>,
         \<lparr>Destination = ''/process'', Type = ''bind'', Source = ''/tmp'', Options = [''ro'']\<rparr>]"
    unfolding m by (simp add: exampleSpec_def hp)
  moreover have "MaskedPaths l2 = [''/sys/firmware'']"
    unfolding e by (simp add: exampleLinux_def hp)
  moreover have "ReadonlyPaths l2 = [''/sys/fs/cgroup'', ''/process'']"
    unfolding f by (simp add: exampleLinux_def hp)
  ultimately show ?thesis using a d by blast
qed

section \<open>The Resource Limit Generator: properties\<close>

lemma rlimits_loop_map:
  "rlimits_loop tu acc us = acc @ map (\<lambda>x. rlimitOf tu (the x)) (filter (\<lambda>x. x \<noteq> None) us)"
  by (induction us arbitrary: acc) (simp_all split: option.splits)

text \<open>The conversion keeps every value that a \<open>uint64\<close> can hold.\<close>

lemma uint64_value: "0 \<le> i \<Longrightarrow> i < 2 ^ 64 \<Longrightarrow> uint (uint64 i) = i"
  by (simp add: uint64_def uint_word_of_int take_bit_int_eq_self)

text \<open>
  Claim C9. For the empty list of ulimits the generator returns no mutator. For a
  list that is not empty it returns one mutator, which carries one resource limit
  for every entry that is not nil, in order: its type is \<open>RLIMIT_\<close> followed by
  the upper-cased name, and its hard and soft values are the entry's, as 64-bit
  unsigned numbers: read back as integers they are the entry's values modulo
  \<open>2 ^ 64\<close>, so a value from 0 to \<open>2 ^ 64 - 1\<close> is kept as it is and -1
  (unlimited) becomes \<open>2 ^ 64 - 1\<close>. A nil entry followed by a valid one gives
  exactly one limit.
\<close>

theorem C9_rlimit_generator:
  "(generateRlimitOpts X [] :: 'm SpecOpts list \<times> error option) = ([], None)
   \<and> (ulimits \<noteq> [] \<longrightarrow>
        (generateRlimitOpts X ulimits :: 'm SpecOpts list \<times> error option) =
          ([SetRlimits
              (map (\<lambda>x. \<lparr>Type_rl = ''RLIMIT_'' @ strings_ToUpper X (Name (the x)),
                          Hard = word_of_int (Hard_u (the x)),
                          Soft = word_of_int (Soft_u (the x))\<rparr>)
                   (filter (\<lambda>x. x \<noteq> None) ulimits))], None))
   \<and> (\<exists>r. (generateRlimitOpts X [None, Some u] :: 'm SpecOpts list \<times> error option)
              = ([SetRlimits [r]], None)
          \<and> Type_rl r = ''RLIMIT_'' @ strings_ToUpper X (Name u)
          \<and> uint (Hard r) = Hard_u u mod 2 ^ 64
          \<and> uint (Soft r) = Soft_u u mod 2 ^ 64
          \<and> (0 \<le> Hard_u u \<and> Hard_u u < 2 ^ 64 \<longrightarrow> uint (Hard r) = Hard_u u)
          \<and> (0 \<le> Soft_u u \<and> Soft_u u < 2 ^ 64 \<longrightarrow> uint (Soft r) = Soft_u u))
   \<and> uint (uint64 i) = i mod 2 ^ 64"
  by (simp add: generateRlimitOpts_def rlimits_loop_map rlimitOf_def uint64_def
      uint_word_of_int take_bit_eq_mod)

theorem C9_rlimit_generator_witness:
  "(generateRlimitOpts exampleExternals
      [None, Some \<lparr>Name = ''nofile'', Soft_u = 1024, Hard_u = - 1\<rparr>]
      :: unit SpecOpts list \<times> error option)
     = ([SetRlimits [\<lparr>Type_rl = ''RLIMIT_NOFILE'', Hard = 18446744073709551615, Soft = 1024\<rparr>]],
        None)
   \<and> uint (uint64 (- 1)) = 18446744073709551615
   \<and> uint (uint64 2048) = 2048"
proof -
  have up: "toUpperASCII ''nofile'' = ''NOFILE''"
    by code_simp
  have m1: "(word_of_int (- 1) :: 64 word) = 18446744073709551615"
    by simp
  show ?thesis
    using C9_rlimit_generator
      [where X = exampleExternals
         and ulimits = "[None, Some \<lparr>Name = ''nofile'', Soft_u = 1024, Hard_u = - 1\<rparr>]"
         and u = "\<lparr>Name = ''nofile'', Soft_u = 1024, Hard_u = - 1\<rparr>"
         and i = "- 1" and ?'m = unit]
      C9_rlimit_generator
      [where X = exampleExternals and ulimits = "[]"
         and u = "\<lparr>Name = ''nofile'', Soft_u = 1024, Hard_u = - 1\<rparr>"
         and i = 2048 and ?'m = unit]
    by (simp add: exampleExternals_def up m1)
qed

text \<open>
  Claim C10. On a spec with a process block, the mutator of the Resource Limit
  Generator returns without error and changes one field only: the process's
  resource limits become the list it carries. The limits that were there before
  have no part in the result, so the limits set by an earlier mutator are lost.
\<close>

theorem C10_rlimits_overwritten:
  assumes "Process s = Some p"
  shows "applyOpt X (SetRlimits rlimits) (w, s)
           = Returned None (w, s\<lparr>Process := Some (p\<lparr>Rlimits := rlimits\<rparr>)\<rparr>)
       \<and> applyOpt X (SetRlimits rlimits) (w, s\<lparr>Process := Some (p\<lparr>Rlimits := previous\<rparr>)\<rparr>)
           = Returned None (w, s\<lparr>Process := Some (p\<lparr>Rlimits := rlimits\<rparr>)\<rparr>)
       \<and> (ulimits \<noteq> [] \<longrightarrow>
            applyOpts X (fst (generateRlimitOpts X ulimits)) (w, s)
              = Returned None
                  (w, s\<lparr>Process := Some (p\<lparr>Rlimits :=
                         map (\<lambda>x. rlimitOf (strings_ToUpper X) (the x))
                             (filter (\<lambda>x. x \<noteq> None) ulimits)\<rparr>)\<rparr>))"
  using assms
  by (simp add: liftSpec_def setRlimits_def generateRlimitOpts_def rlimits_loop_map)

theorem C10_rlimits_overwritten_witness:
  "applyOpt exampleExternals
     (SetRlimits [\<lparr>Type_rl = ''RLIMIT_NOFILE'', Hard = 2048, Soft = 1024\<rparr>])
     (exampleWorld, exampleSpec)
   = Returned None
       (exampleWorld,
        \<lparr>Hostname = Hostname exampleSpec,
         Process = Some \<lparr>Args = Args exampleProcess, Env = Env exampleProcess,
                          Rlimits = [\<lparr>Type_rl = ''RLIMIT_NOFILE'', Hard = 2048, Soft = 1024\<rparr>],
                          ApparmorProfile = ApparmorProfile exampleProcess,
                          SelinuxLabel = SelinuxLabel exampleProcess\<rparr>,
         Mounts = Mounts exampleSpec, Hooks = Hooks exampleSpec, Linux = Linux exampleSpec\<rparr>)"
proof -
  have h: "Process exampleSpec = Some exampleProcess"
    by (simp add: exampleSpec_def)
  show ?thesis
    using C10_rlimits_overwritten [OF h, of exampleExternals
        "[\<lparr>Type_rl = ''RLIMIT_NOFILE'', Hard = 2048, Soft = 1024\<rparr>]" exampleWorld]
    by (simp add: exampleSpec_def exampleProcess_def)
qed

section \<open>The Device Injection Generator: properties\<close>

text \<open>
  Claim C7. For the empty list of devices the generator returns no mutator; for a
  list that is not empty it returns one. Whatever the spec, a run of that mutator
  calls the manager's refresh first, logs a warning if the refresh failed, and
  then calls the injection with the devices, whether the refresh failed or not.
  The mutator returns no error when the injection returns none, and the
  injection's error wrapped in "CDI device injection failed" otherwise.
\<close>

theorem C7_device_injection:
  fixes manager :: "'m Manager" and w :: "'m World"
  shows "generateCDIOpts manager [] = ([], None)
   \<and> (devs \<noteq> [] \<longrightarrow> generateCDIOpts manager devs = ([WithCDIDevices manager devs], None))
   \<and> applyOpt X (WithCDIDevices manager devs) (w, s) =
       Returned
         (map_option (\<lambda>err. ErrWrapf err ''CDI device injection failed'')
            (fst (fst (InjectDevices manager (snd (Refresh manager (manager_state w))) s devs))))
         (\<lparr>manager_state =
              snd (InjectDevices manager (snd (Refresh manager (manager_state w))) s devs),
           trace = trace w @ [EvRefresh]
             @ (case fst (Refresh manager (manager_state w)) of
                  None \<Rightarrow> []
                | Some err \<Rightarrow> [EvWarnf ''CDI registry refresh failed: %v'' err])
             @ [EvInjectDevices devs]\<rparr>,
          snd (fst (InjectDevices manager (snd (Refresh manager (manager_state w))) s devs)))"
  by (simp add: generateCDIOpts_def withCDIDevices_def Let_def split: prod.splits option.splits)

theorem C7_device_injection_witness:
  "generateCDIOpts exampleManager [Some (CDIDevice ''vendor.com/gpu=0'')]
     = ([WithCDIDevices exampleManager [Some (CDIDevice ''vendor.com/gpu=0'')]], None)
   \<and> applyOpt exampleExternals
       (WithCDIDevices exampleManager [Some (CDIDevice ''vendor.com/gpu=0'')])
       (exampleWorld, exampleSpec)
     = Returned None
         (\<lparr>manager_state = (),
           trace = [EvRefresh,
                    EvWarnf ''CDI registry refresh failed: %v'' (ErrForeign ''registry unreadable''),
                    EvInjectDevices [Some (CDIDevice ''vendor.com/gpu=0'')]]\<rparr>,
          exampleSpec\<lparr>Hooks := [''cdi-hook'']\<rparr>)"
  using C7_device_injection
    [of exampleManager "[Some (CDIDevice ''vendor.com/gpu=0'')]" exampleExternals exampleWorld
        exampleSpec]
  by (simp add: exampleManager_def exampleWorld_def exampleSpec_def)

section \<open>The Capability Probe: properties\<close>

text \<open>
  Against claim C8 as it is written: on a host where \<open>os.Stat\<close> of
  \<open>/sys/fs/cgroup/cgroup.subtree_control\<close> fails with ENOTDIR (a component of the
  path is not a directory, so the file does not exist), the probe answers true.
\<close>

theorem C8_probe_counterexample:
  "fst (cgroupV2NamespaceSupported
          (\<lambda>p. if p = ''/sys/fs/cgroup/cgroup.subtree_control'' then Some ENOTDIR else None)
          initialProbeState)
   \<and> \<not> pathExists
          (\<lambda>p. if p = ''/sys/fs/cgroup/cgroup.subtree_control'' then Some ENOTDIR else None)
          ''/sys/fs/cgroup/cgroup.subtree_control''"
  by (simp add: cgroupV2NamespaceSupported_def once_Do_def probeCgroupNS_def
      initialProbeState_def os_IsNotExist_def pathExists_def Let_def)

lemma probe_cached:
  "cgroupNSOnce st \<Longrightarrow> cgroupV2NamespaceSupported os_Stat st = (supportsCgroupNS st, st)"
  by (simp add: cgroupV2NamespaceSupported_def once_Do_def)

lemma probeCalls_cached:
  "cgroupNSOnce st \<Longrightarrow> probeCalls hosts st = (replicate (length hosts) (supportsCgroupNS st), st)"
  by (induction hosts) (simp_all add: probe_cached)

lemma probe_first:
  "cgroupV2NamespaceSupported os_Stat initialProbeState =
     (\<not> os_IsNotExist (os_Stat ''/proc/self/ns/cgroup'')
        \<and> \<not> os_IsNotExist (os_Stat ''/sys/fs/cgroup/cgroup.subtree_control''),
      \<lparr>cgroupNSOnce = True,
       supportsCgroupNS = (\<not> os_IsNotExist (os_Stat ''/proc/self/ns/cgroup'')
        \<and> \<not> os_IsNotExist (os_Stat ''/sys/fs/cgroup/cgroup.subtree_control'')),
       statCalls = (if os_IsNotExist (os_Stat ''/proc/self/ns/cgroup'')
                    then [''/proc/self/ns/cgroup'']
                    else [''/proc/self/ns/cgroup'', ''/sys/fs/cgroup/cgroup.subtree_control''])\<rparr>)"
  by (simp add: cgroupV2NamespaceSupported_def once_Do_def probeCgroupNS_def
      initialProbeState_def Let_def)

text \<open>
  Claim C8, amended. The first call of the probe answers true exactly when neither
  \<open>os.Stat\<close> of \<open>/proc/self/ns/cgroup\<close> nor \<open>os.Stat\<close> of
  \<open>/sys/fs/cgroup/cgroup.subtree_control\<close> reports "not found"; a "not found"
  makes the answer false, not a failure. The answer is cached: every later call,
  on whatever host state, gives the same answer and leaves the state as it is, the
  list of \<open>os.Stat\<close> calls included.
\<close>

theorem C8_probe_amended:
  "fst (cgroupV2NamespaceSupported os_Stat initialProbeState)
     = (\<not> os_IsNotExist (os_Stat ''/proc/self/ns/cgroup'')
        \<and> \<not> os_IsNotExist (os_Stat ''/sys/fs/cgroup/cgroup.subtree_control''))
   \<and> cgroupV2NamespaceSupported os_Stat' (snd (cgroupV2NamespaceSupported os_Stat initialProbeState))
     = (fst (cgroupV2NamespaceSupported os_Stat initialProbeState),
        snd (cgroupV2NamespaceSupported os_Stat initialProbeState))
   \<and> probeCalls (os_Stat # later) initialProbeState
     = (replicate (Suc (length later)) (fst (cgroupV2NamespaceSupported os_Stat initialProbeState)),
        snd (cgroupV2NamespaceSupported os_Stat initialProbeState))
   \<and> statCalls (snd (probeCalls (os_Stat # later) initialProbeState))
     = statCalls (snd (cgroupV2NamespaceSupported os_Stat initialProbeState))"
  by (simp add: probe_first probe_cached probeCalls_cached)

section \<open>The Safe Subpath Resolver: properties\<close>

lemma attempts_Nil [simp]: "attempts [] = 0"
  by (simp add: attempts_def)

lemma attempts_Cons [simp]:
  "attempts (c # cs) = (if isOpenFile c then 1 else 0) + attempts cs"
  by (simp add: attempts_def)

lemma attempts_append [simp]: "attempts (xs @ ys) = attempts xs + attempts ys"
  by (simp add: attempts_def)

lemma swappedE:
  assumes "swapped a"
  obtains src fd resolved where "fs_RootPath a = Inr src" "os_OpenFile a = Inr fd"
    "os_Readlink a = Inr resolved" "resolved \<noteq> src"
  using assms by (auto simp: swapped_def split: sum.splits)

text \<open>
  With \<open>k\<close> retries left and \<open>k\<close> swapped passes ahead, the loop makes \<open>k\<close> more
  passes and fails with the error that names the subpath.
\<close>

lemma sub_loop_swapped:
  assumes "\<forall>j<k. swapped (env (i + j))" and "0 < k"
  shows "fst (sub_loop env m subPath root (int k) i calls)
           = Inl (ErrNew (''unable to safely resolve subpath '' @ subPath))
       \<and> attempts (snd (sub_loop env m subPath root (int k) i calls)) = attempts calls + k"
  using assms
proof (induction k arbitrary: i calls)
  case 0
  then show ?case by simp
next
  case (Suc k)
  from Suc.prems(1) have "swapped (env i)" by (metis add.right_neutral zero_less_Suc)
  then obtain src fd resolved where a: "fs_RootPath (env i) = Inr src"
    "os_OpenFile (env i) = Inr fd" "os_Readlink (env i) = Inr resolved" "resolved \<noteq> src"
    by (rule swappedE)
  show ?case
  proof (cases "k = 0")
    case True
    with a show ?thesis by (subst (1 2) sub_loop.simps) (simp add: Let_def)
  next
    case False
    then have k: "0 < k" by simp
    have "\<forall>j<k. swapped (env (Suc i + j))"
      using Suc.prems(1) by (metis Suc_less_eq add_Suc_shift)
    from Suc.IH [OF this k]
    have ih: "\<And>cs. fst (sub_loop env m subPath root (int k) (Suc i) cs)
                 = Inl (ErrNew (''unable to safely resolve subpath '' @ subPath))
             \<and> attempts (snd (sub_loop env m subPath root (int k) (Suc i) cs)) = attempts cs + k"
      by blast
    have step: "sub_loop env m subPath root (int (Suc k)) i calls
        = sub_loop env m subPath root (int k) (Suc i)
            (calls @ [SysRootPath root subPath] @ [SysOpenFile src]
             @ [SysReadlink (''/proc/self/fd/'' @ strconv_Itoa fd)] @ [SysClose fd])"
      using a k by (subst sub_loop.simps) (simp add: Let_def)
    show ?thesis unfolding step using ih by simp
  qed
qed

text \<open>
  Claim C1. If in each of the first ten passes the path read back through
  \<open>/proc/self/fd/<n>\<close> differs from the path computed, \<open>sub\<close> fails with the
  error "unable to safely resolve subpath" followed by the subpath, an error made
  by \<open>errors.Errorf\<close> and not one passed on from a system call, and it has made
  exactly ten passes.
\<close>

theorem C1_sub_retry_budget:
  assumes "\<forall>i<10. swapped (env i)"
  shows "fst (sub env m subPath) = Inl (ErrNew (''unable to safely resolve subpath '' @ subPath))
       \<and> attempts (snd (sub env m subPath)) = 10"
  using sub_loop_swapped [of 10 env 0 m subPath "Source_m m" "[]"] assms
  by (simp add: sub_def)

theorem C1_sub_retry_budget_witness:
  "fst (sub swappingHost exampleMount ''a/b'')
     = Inl (ErrNew ''unable to safely resolve subpath a/b'')
   \<and> attempts (snd (sub swappingHost exampleMount ''a/b'')) = 10"
proof -
  have h: "\<forall>i<10. swapped (swappingHost i)"
    by (simp add: swapped_def swappingHost_def)
  show ?thesis using C1_sub_retry_budget [OF h, of exampleMount "''a/b''"] by simp
qed

end
